theory Spec2Isabelle
  imports Main "HOL-Library.AList" "HOL-Library.Sublist"
begin

section \<open>The HTTP data store of support/datastore/http.go\<close>

text \<open>
  A shallow embedding of \<^verbatim>\<open>HTTPDataStore\<close>: the read-only backend that serves files
  from an HTTP(S) endpoint. Go strings are byte strings (\<^typ>\<open>string\<close>), Go maps are
  association lists with distinct keys (the list order is one possible \<^verbatim>\<open>range\<close>
  order), a Go \<^verbatim>\<open>error\<close> result is an \<^typ>\<open>'a option\<close> (\<^verbatim>\<open>nil\<close> is \<open>None\<close>) and a
  \<^verbatim>\<open>(value, error)\<close> pair whose value is \<^verbatim>\<open>nil\<close> on failure is a sum with the error
  on the left.
\<close>

subsection \<open>Errors\<close>

text \<open>
  \<open>ErrNotExist\<close> is the sentinel \<^verbatim>\<open>os.ErrNotExist\<close>. \<open>errorString s\<close> is the value
  of \<^verbatim>\<open>errors.New(s)\<close> and of \<^verbatim>\<open>fmt.Errorf\<close> without a \<^verbatim>\<open>%w\<close> verb: its message is
  \<open>s\<close>. \<open>wrapError p e\<close> is the value of \<^verbatim>\<open>fmt.Errorf\<close> with a trailing \<^verbatim>\<open>%w\<close>: \<open>p\<close> is
  the formatted text in front of the wrapped error \<open>e\<close>. \<open>url_Error op u e\<close> is the
  \<^verbatim>\<open>*url.Error\<close> of net/url, which unwraps to \<open>e\<close>.
\<close>

datatype error =
    ErrNotExist
  | errorString string
  | wrapError string error
  | url_Error string string error

text \<open>\<^verbatim>\<open>errors.Is\<close>: the target is found anywhere along the chain of wrapped errors.\<close>

fun errors_Is :: "error \<Rightarrow> error \<Rightarrow> bool" where
  "errors_Is (wrapError p e) target = (wrapError p e = target \<or> errors_Is e target)"
| "errors_Is (url_Error op u e) target = (url_Error op u e = target \<or> errors_Is e target)"
| "errors_Is e target = (e = target)"

subsection \<open>Strings\<close>

definition HasPrefix :: "string \<Rightarrow> string \<Rightarrow> bool" where
  "HasPrefix s p = (take (length p) s = p)"

definition HasSuffix :: "string \<Rightarrow> string \<Rightarrow> bool" where
  "HasSuffix s x = (length x \<le> length s \<and> drop (length s - length x) s = x)"

definition TrimPrefix :: "string \<Rightarrow> string \<Rightarrow> string" where
  "TrimPrefix s p = (if HasPrefix s p then drop (length p) s else s)"

definition byte :: "char \<Rightarrow> nat" where
  "byte c = of_char c"

definition isUpper :: "char \<Rightarrow> bool" where
  "isUpper c = (65 \<le> byte c \<and> byte c \<le> 90)"

definition isLower :: "char \<Rightarrow> bool" where
  "isLower c = (97 \<le> byte c \<and> byte c \<le> 122)"

definition isDigit :: "char \<Rightarrow> bool" where
  "isDigit c = (48 \<le> byte c \<and> byte c \<le> 57)"

definition lowerByte :: "char \<Rightarrow> char" where
  "lowerByte c = (if isUpper c then char_of (byte c + 32) else c)"

definition upperByte :: "char \<Rightarrow> char" where
  "upperByte c = (if isLower c then char_of (byte c - 32) else c)"

text \<open>
  \<^verbatim>\<open>strings.ToLower\<close> on ASCII text, which is what HTTP header names and URL schemes
  are: the letters A-Z are mapped to a-z and every other byte is kept.
\<close>

definition ToLower :: "string \<Rightarrow> string" where
  "ToLower s = map lowerByte s"

text \<open>\<^verbatim>\<open>strings.Cut(s, sep)\<close> for a one-byte separator.\<close>

definition Cut :: "string \<Rightarrow> char \<Rightarrow> string \<times> string \<times> bool" where
  "Cut s sep =
     (case dropWhile (\<lambda>c. c \<noteq> sep) s of
        [] \<Rightarrow> (s, [], False)
      | _ # after \<Rightarrow> (takeWhile (\<lambda>c. c \<noteq> sep) s, after, True))"

text \<open>The verb \<^verbatim>\<open>%d\<close> of package fmt on an \<^verbatim>\<open>int\<close>: decimal digits, a minus sign when negative.\<close>

definition digit :: "nat \<Rightarrow> char" where
  "digit d = char_of (48 + d)"

function utoa :: "nat \<Rightarrow> string" where
  "utoa n = (if n < 10 then [digit n] else utoa (n div 10) @ [digit (n mod 10)])"
  by pat_completeness auto
termination
  by (relation "measure id") auto

declare utoa.simps [simp del]

definition itoa :: "int \<Rightarrow> string" where
  "itoa i = (if i < 0 then CHR ''-'' # utoa (nat (- i)) else utoa (nat i))"

subsection \<open>strconv.ParseInt(s, 10, 64)\<close>

text \<open>
  The standard library's loop of \<^verbatim>\<open>ParseUint\<close> at base 10 and 64 bits: every byte must
  be a decimal digit, and the value must stay below \<open>2 ^ 64\<close>. \<open>None\<close> is a syntax
  error, \<open>Some None\<close> a range error, \<open>Some (Some n)\<close> the value.
\<close>

definition maxUint64 :: int where
  "maxUint64 = 2 ^ 64 - 1"

fun ParseUint_loop :: "int \<Rightarrow> string \<Rightarrow> int option option" where
  "ParseUint_loop n [] = Some (Some n)"
| "ParseUint_loop n (c # cs) =
     (if \<not> isDigit c then None
      else if n \<ge> maxUint64 div 10 + 1 then Some None
      else let n1 = n * 10 + (int (byte c) - 48) in
        if n1 > maxUint64 then Some None else ParseUint_loop n1 cs)"

definition ParseUint :: "string \<Rightarrow> int option option" where
  "ParseUint s = (if s = [] then None else ParseUint_loop 0 s)"

datatype NumError = ErrSyntax | ErrRange

text \<open>
  \<^verbatim>\<open>ParseInt\<close> picks off a leading sign, converts the rest unsigned and checks the
  signed 64-bit range. Both of its errors are \<^verbatim>\<open>*strconv.NumError\<close> values.
\<close>

definition ParseInt :: "string \<Rightarrow> NumError + int" where
  "ParseInt s =
     (if s = [] then Inl ErrSyntax
      else let neg = (hd s = CHR ''-'');
               s1 = (if hd s = CHR ''+'' \<or> hd s = CHR ''-'' then tl s else s)
           in case ParseUint s1 of
                None \<Rightarrow> Inl ErrSyntax
              | Some None \<Rightarrow> Inl ErrRange
              | Some (Some un) \<Rightarrow>
                  if \<not> neg \<and> un \<ge> 2 ^ 63 then Inl ErrRange
                  else if neg \<and> un > 2 ^ 63 then Inl ErrRange
                  else Inr (if neg then - un else un))"

subsection \<open>net/url\<close>

text \<open>
  Of a parsed URL this package reads the scheme only. \<^verbatim>\<open>url.Parse\<close> belongs to Go's
  standard library; the model follows it through the steps that decide the scheme and
  the early exits (control bytes, the scheme scan, the query cut, the opaque form, the
  colon rule for relative references). Decoding the authority, the path and the
  fragment can only add an error; these three steps are functions of the library
  record \<open>golib\<close> below.
\<close>

record URL =
  Scheme :: string

definition stringContainsCTLByte :: "string \<Rightarrow> bool" where
  "stringContainsCTLByte s = list_ex (\<lambda>c. byte c < 32 \<or> byte c = 127) s"

fun getScheme_from :: "string \<Rightarrow> nat \<Rightarrow> string \<Rightarrow> error + (string \<times> string)" where
  "getScheme_from rawURL i [] = Inr ([], rawURL)"
| "getScheme_from rawURL i (c # cs) =
     (if isLower c \<or> isUpper c then getScheme_from rawURL (Suc i) cs
      else if isDigit c \<or> c = CHR ''+'' \<or> c = CHR ''-'' \<or> c = CHR ''.'' then
        (if i = 0 then Inr ([], rawURL) else getScheme_from rawURL (Suc i) cs)
      else if c = CHR '':'' then
        (if i = 0 then Inl (errorString ''missing protocol scheme'')
         else Inr (take i rawURL, drop (Suc i) rawURL))
      else Inr ([], rawURL))"

definition getScheme :: "string \<Rightarrow> error + (string \<times> string)" where
  "getScheme rawURL = getScheme_from rawURL 0 rawURL"

subsection \<open>net/http\<close>

record Client =
  Timeout :: int

record Request =
  Method :: string
  URL :: string
  ReqHeader :: "string \<rightharpoonup> string list"

record Response =
  StatusCode :: int
  Header :: "(string \<times> string list) list"
  Body :: string

definition StatusOK :: int where
  "StatusOK = 200"

definition StatusNotFound :: int where
  "StatusNotFound = 404"

definition Second :: int where
  "Second = 1000000000"

text \<open>
  The part of the standard library and of the network that the package calls and that
  is not fixed here: the three decoding steps of \<^verbatim>\<open>url.Parse\<close>, \<^verbatim>\<open>time.ParseDuration\<close>
  (a duration in nanoseconds), \<^verbatim>\<open>http.ParseTime\<close> (a time as Unix seconds) and
  \<^verbatim>\<open>(*http.Client).Do\<close>, which either fails or yields the server's response.
\<close>

record golib =
  parseAuthority :: "string \<Rightarrow> error option"
  setPath :: "string \<Rightarrow> error option"
  setFragment :: "string \<Rightarrow> error option"
  ParseDuration :: "string \<Rightarrow> error + int"
  ParseTime :: "string \<Rightarrow> error + int"
  Do :: "Client \<Rightarrow> Request \<Rightarrow> error + Response"

text \<open>The unexported \<^verbatim>\<open>parse(rawURL, false)\<close> of net/url.\<close>

definition parse :: "golib \<Rightarrow> string \<Rightarrow> error + URL" where
  "parse lib rawURL =
     (if stringContainsCTLByte rawURL then
        Inl (errorString ''net/url: invalid control character in URL'')
      else if rawURL = ''*'' then Inr \<lparr>Scheme = []\<rparr>
      else case getScheme rawURL of
        Inl err \<Rightarrow> Inl err
      | Inr (scheme0, rest0) \<Rightarrow>
          let scheme = ToLower scheme0;
              rest = (if HasSuffix rest0 ''?'' \<and> count_list rest0 CHR ''?'' = 1
                      then butlast rest0 else fst (Cut rest0 CHR ''?''))
          in if \<not> HasPrefix rest ''/'' \<and> scheme \<noteq> [] then Inr \<lparr>Scheme = scheme\<rparr>
             else if \<not> HasPrefix rest ''/'' \<and> CHR '':'' \<in> set (fst (Cut rest CHR ''/'')) then
               Inl (errorString ''first path segment in URL cannot contain colon'')
             else
               let hasAuthority = ((scheme \<noteq> [] \<or> \<not> HasPrefix rest ''///'') \<and> HasPrefix rest ''//'');
                   authority = takeWhile (\<lambda>c. c \<noteq> CHR ''/'') (drop 2 rest);
                   path = (if hasAuthority then dropWhile (\<lambda>c. c \<noteq> CHR ''/'') (drop 2 rest) else rest)
               in (case (if hasAuthority then parseAuthority lib authority else None) of
                     Some err \<Rightarrow> Inl err
                   | None \<Rightarrow>
                       (case setPath lib path of
                          Some err \<Rightarrow> Inl err
                        | None \<Rightarrow> Inr \<lparr>Scheme = scheme\<rparr>)))"

text \<open>\<^verbatim>\<open>url.Parse\<close>: the fragment is cut off first and decoded last.\<close>

definition url_Parse :: "golib \<Rightarrow> string \<Rightarrow> error + URL" where
  "url_Parse lib rawURL =
     (case Cut rawURL CHR ''#'' of
        (u, frag, _) \<Rightarrow>
          (case parse lib u of
             Inl err \<Rightarrow> Inl (url_Error ''parse'' u err)
           | Inr url \<Rightarrow>
               if frag = [] then Inr url
               else (case setFragment lib frag of
                       Some err \<Rightarrow> Inl (url_Error ''parse'' rawURL err)
                     | None \<Rightarrow> Inr url)))"

text \<open>
  \<^verbatim>\<open>textproto.CanonicalMIMEHeaderKey\<close>: a key made of header-field bytes only gets an
  upper-case first letter and an upper-case letter after every dash, all other letters
  in lower case; any other key is returned as it is.
\<close>

definition validHeaderFieldByte :: "char \<Rightarrow> bool" where
  "validHeaderFieldByte c =
     (isLower c \<or> isUpper c \<or> isDigit c \<or> c \<in> set ''!#$%&*+-.^_`|~'' \<or> byte c = 39)"

fun canonical :: "bool \<Rightarrow> string \<Rightarrow> string" where
  "canonical upper [] = []"
| "canonical upper (c # cs) =
     (let c' = (if upper \<and> isLower c then upperByte c
                else if \<not> upper \<and> isUpper c then lowerByte c else c)
      in c' # canonical (c' = CHR ''-'') cs)"

definition CanonicalMIMEHeaderKey :: "string \<Rightarrow> string" where
  "CanonicalMIMEHeaderKey s = (if list_all validHeaderFieldByte s then canonical True s else s)"

text \<open>\<^verbatim>\<open>Header.Set\<close> replaces the values stored under the canonical form of the key.\<close>

definition Header_Set :: "string \<Rightarrow> string \<Rightarrow> (string \<rightharpoonup> string list) \<Rightarrow> (string \<rightharpoonup> string list)" where
  "Header_Set key v hdr = hdr(CanonicalMIMEHeaderKey key \<mapsto> [v])"

text \<open>
  \<^verbatim>\<open>http.NewRequestWithContext\<close> with a non-nil context and one of the methods
  \<^verbatim>\<open>HEAD\<close> and \<^verbatim>\<open>GET\<close>: it fails when the URL does not parse and otherwise builds a
  request with no header for that URL.
\<close>

definition NewRequestWithContext :: "golib \<Rightarrow> string \<Rightarrow> string \<Rightarrow> error + Request" where
  "NewRequestWithContext lib method url =
     (case url_Parse lib url of
        Inl err \<Rightarrow> Inl err
      | Inr _ \<Rightarrow> Inr \<lparr>Method = method, URL = url, ReqHeader = Map.empty\<rparr>)"

subsection \<open>The data store\<close>

record DataStoreConfig =
  Type :: string
  Params :: "(string \<times> string) list"

record HTTPDataStore =
  client :: Client
  baseURL :: string
  headers :: "(string \<times> string) list"

text \<open>The loop of \<^verbatim>\<open>NewHTTPDataStore\<close> that collects the \<^verbatim>\<open>header_\<close> parameters.\<close>

definition collectHeaders :: "(string \<times> string) list \<Rightarrow> (string \<times> string) list" where
  "collectHeaders params =
     fold (\<lambda>(key, v) hs.
             if HasPrefix key ''header_'' then AList.update (TrimPrefix key ''header_'') v hs
             else hs)
          params []"

definition NewHTTPDataStore :: "golib \<Rightarrow> DataStoreConfig \<Rightarrow> error + HTTPDataStore" where
  "NewHTTPDataStore lib datastoreConfig =
     (case map_of (Params datastoreConfig) ''base_url'' of
        None \<Rightarrow> Inl (errorString ''invalid HTTP config, no base_url'')
      | Some baseURL0 \<Rightarrow>
          (case url_Parse lib baseURL0 of
             Inl err \<Rightarrow> Inl (wrapError ''invalid base_url: '' err)
           | Inr parsedURL \<Rightarrow>
               if Scheme parsedURL \<noteq> ''http'' \<and> Scheme parsedURL \<noteq> ''https'' then
                 Inl (errorString ''base_url must use http or https scheme'')
               else
                 let baseURL1 = (if \<not> HasSuffix baseURL0 ''/'' then baseURL0 @ ''/'' else baseURL0);
                     timeout = (case map_of (Params datastoreConfig) ''timeout'' of
                                  None \<Rightarrow> Inr (30 * Second)
                                | Some timeoutStr \<Rightarrow> ParseDuration lib timeoutStr)
                 in (case timeout of
                       Inl err \<Rightarrow> Inl (wrapError ''invalid timeout: '' err)
                     | Inr t \<Rightarrow>
                         Inr \<lparr>client = \<lparr>Timeout = t\<rparr>, baseURL = baseURL1,
                              headers = collectHeaders (Params datastoreConfig)\<rparr>)))"

definition buildURL :: "HTTPDataStore \<Rightarrow> string \<Rightarrow> string" where
  "buildURL h filePath = baseURL h @ filePath"

definition addHeaders :: "HTTPDataStore \<Rightarrow> Request \<Rightarrow> Request" where
  "addHeaders h req =
     fold (\<lambda>(key, v) r. r\<lparr>ReqHeader := Header_Set key v (ReqHeader r)\<rparr>) (headers h) req"

definition checkHTTPStatus :: "Response \<Rightarrow> string \<Rightarrow> error option" where
  "checkHTTPStatus resp filePath =
     (if StatusCode resp = StatusOK then None
      else if StatusCode resp = StatusNotFound then Some ErrNotExist
      else Some (errorString (''HTTP error '' @ itoa (StatusCode resp) @ '' for file '' @ filePath)))"

text \<open>
  The request that \<^verbatim>\<open>doHeadRequest\<close> and \<^verbatim>\<open>GetFile\<close> build for a path: a new request
  for the built URL, with the configured headers added.
\<close>

definition requestFor :: "HTTPDataStore \<Rightarrow> string \<Rightarrow> string \<Rightarrow> Request" where
  "requestFor h method filePath =
     addHeaders h \<lparr>Method = method, URL = buildURL h filePath, ReqHeader = Map.empty\<rparr>"

text \<open>
  An operation returns the requests it handed to \<^verbatim>\<open>client.Do\<close>, in order, next to its
  Go result.
\<close>

definition doHeadRequest :: "golib \<Rightarrow> HTTPDataStore \<Rightarrow> string \<Rightarrow> Request list \<times> (error + Response)" where
  "doHeadRequest lib h filePath =
     (let requestURL = buildURL h filePath in
      case NewRequestWithContext lib ''HEAD'' requestURL of
        Inl err \<Rightarrow>
          ([], Inl (wrapError (''failed to create HEAD request for '' @ filePath @ '': '') err))
      | Inr req0 \<Rightarrow>
          (let req = addHeaders h req0 in
           case Do lib (client h) req of
             Inl err \<Rightarrow>
               ([req], Inl (wrapError (''HEAD request failed for '' @ filePath @ '': '') err))
           | Inr resp \<Rightarrow>
               (case checkHTTPStatus resp filePath of
                  Some err \<Rightarrow> ([req], Inl err)
                | None \<Rightarrow> ([req], Inr resp))))"

text \<open>The loop of \<^verbatim>\<open>GetFileMetadata\<close> over the response header.\<close>

definition metadataOf :: "(string \<times> string list) list \<Rightarrow> (string \<rightharpoonup> string)" where
  "metadataOf hdr =
     fold (\<lambda>(key, vals) metadata.
             if length vals > 0 then metadata(ToLower key \<mapsto> vals ! 0) else metadata)
          hdr Map.empty"

definition GetFileMetadata :: "golib \<Rightarrow> HTTPDataStore \<Rightarrow> string \<Rightarrow> Request list \<times> (error + (string \<rightharpoonup> string))" where
  "GetFileMetadata lib h filePath =
     (case doHeadRequest lib h filePath of
        (sent, Inl err) \<Rightarrow> (sent, Inl err)
      | (sent, Inr resp) \<Rightarrow> (sent, Inr (metadataOf (Header resp))))"

definition GetFileLastModified :: "golib \<Rightarrow> HTTPDataStore \<Rightarrow> string \<Rightarrow> Request list \<times> (error + int)" where
  "GetFileLastModified lib h filePath =
     (case GetFileMetadata lib h filePath of
        (sent, Inl err) \<Rightarrow> (sent, Inl err)
      | (sent, Inr metadata) \<Rightarrow>
          (case metadata ''last-modified'' of
             Some lastModified \<Rightarrow> (sent, ParseTime lib lastModified)
           | None \<Rightarrow> (sent, Inl (errorString ''last-modified header not found''))))"

definition GetFile :: "golib \<Rightarrow> HTTPDataStore \<Rightarrow> string \<Rightarrow> Request list \<times> (error + string)" where
  "GetFile lib h filePath =
     (let requestURL = buildURL h filePath in
      case NewRequestWithContext lib ''GET'' requestURL of
        Inl err \<Rightarrow>
          ([], Inl (wrapError (''failed to create GET request for '' @ filePath @ '': '') err))
      | Inr req0 \<Rightarrow>
          (let req = addHeaders h req0 in
           case Do lib (client h) req of
             Inl err \<Rightarrow>
               ([req], Inl (wrapError (''GET request failed for '' @ filePath @ '': '') err))
           | Inr resp \<Rightarrow>
               (case checkHTTPStatus resp filePath of
                  Some err \<Rightarrow> ([req], Inl err)
                | None \<Rightarrow> ([req], Inr (Body resp)))))"

definition PutFile :: "HTTPDataStore \<Rightarrow> string \<Rightarrow> string \<Rightarrow> (string \<times> string) list \<Rightarrow> Request list \<times> error option" where
  "PutFile h path input metaData =
     ([], Some (errorString ''HTTP datastore is read-only, PutFile not supported''))"

definition PutFileIfNotExists :: "HTTPDataStore \<Rightarrow> string \<Rightarrow> string \<Rightarrow> (string \<times> string) list \<Rightarrow> Request list \<times> bool \<times> error option" where
  "PutFileIfNotExists h path input metaData =
     ([], False, Some (errorString ''HTTP datastore is read-only, PutFileIfNotExists not supported''))"

definition Exists :: "golib \<Rightarrow> HTTPDataStore \<Rightarrow> string \<Rightarrow> Request list \<times> bool \<times> error option" where
  "Exists lib h filePath =
     (case doHeadRequest lib h filePath of
        (sent, Inl err) \<Rightarrow>
          if errors_Is err ErrNotExist then (sent, False, None) else (sent, False, Some err)
      | (sent, Inr resp) \<Rightarrow> (sent, True, None))"

definition Size :: "golib \<Rightarrow> HTTPDataStore \<Rightarrow> string \<Rightarrow> Request list \<times> int \<times> error option" where
  "Size lib h filePath =
     (case GetFileMetadata lib h filePath of
        (sent, Inl err) \<Rightarrow> (sent, 0, Some err)
      | (sent, Inr metadata) \<Rightarrow>
          (case metadata ''content-length'' of
             Some contentLength \<Rightarrow>
               (case ParseInt contentLength of
                  Inl err \<Rightarrow>
                    (sent, 0, Some (errorString (''invalid content-length header: '' @ contentLength)))
                | Inr n \<Rightarrow> (sent, n, None))
           | None \<Rightarrow> (sent, 0, Some (errorString ''content-length header not found''))))"

definition ListFilePaths :: "HTTPDataStore \<Rightarrow> string \<Rightarrow> int \<Rightarrow> Request list \<times> string list \<times> error option" where
  "ListFilePaths h pfx limit =
     ([], [], Some (errorString ''HTTP datastore does not support listing files''))"

definition Close :: "HTTPDataStore \<Rightarrow> error option" where
  "Close h = None"

subsection \<open>The test server of http\_test.go\<close>

text \<open>
  \<^verbatim>\<open>mockHTTPServer.ServeHTTP\<close>: a path under \<^verbatim>\<open>private/\<close> needs the bearer token, an
  unknown path is answered with 404, a known file with its headers, its length and its
  modification time, and with its content on \<^verbatim>\<open>GET\<close>.
\<close>

definition mockFiles :: "(string \<times> string \<times> (string \<times> string) list) list" where
  "mockFiles =
     [(''test.txt'', ''Hello, World!'', [(''Content-Type'', ''text/plain'')]),
      (''private/secret.txt'', ''secret data'', [(''Content-Type'', ''text/plain'')])]"

definition serverURL :: string where
  "serverURL = ''http://127.0.0.1:8080''"

definition ServeHTTP :: "Request \<Rightarrow> Response" where
  "ServeHTTP r =
     (let path = TrimPrefix (TrimPrefix (URL r) serverURL) ''/'' in
      if HasPrefix path ''private/'' \<and> ReqHeader r ''Authorization'' \<noteq> Some [''Bearer test-token'']
      then \<lparr>StatusCode = 401, Header = [], Body = []\<rparr>
      else case map_of mockFiles path of
        None \<Rightarrow> \<lparr>StatusCode = 404, Header = [], Body = []\<rparr>
      | Some (content, hs) \<Rightarrow>
          (let hdr = map (\<lambda>(k, v). (k, [v])) hs @
                     [(''Content-Length'', [utoa (length content)]),
                      (''Last-Modified'', [''Thu, 01 Jan 2026 00:00:00 GMT''])]
           in if Method r = ''HEAD'' then \<lparr>StatusCode = 200, Header = hdr, Body = []\<rparr>
              else if Method r = ''GET'' then \<lparr>StatusCode = 200, Header = hdr, Body = content\<rparr>
              else \<lparr>StatusCode = 405, Header = hdr, Body = []\<rparr>))"

text \<open>
  A library instance for the examples: the three decoding steps of \<^verbatim>\<open>url.Parse\<close> accept
  their input, durations and times are read from a table, and the client reaches the
  test server and nothing else.
\<close>

definition mockLib :: golib where
  "mockLib =
     \<lparr>parseAuthority = (\<lambda>_. None), setPath = (\<lambda>_. None), setFragment = (\<lambda>_. None),
      ParseDuration = (\<lambda>s. if s = ''60s'' then Inr (60 * Second)
                            else Inl (errorString (''time: invalid duration '' @ s))),
      ParseTime = (\<lambda>s. if s = ''Thu, 01 Jan 2026 00:00:00 GMT'' then Inr 1767225600
                        else Inl (errorString (''parsing time '' @ s))),
      Do = (\<lambda>c r. if HasPrefix (URL r) (serverURL @ ''/'') then Inr (ServeHTTP r)
                   else Inl (errorString ''dial tcp: connection refused''))\<rparr>"

definition mockConfig :: DataStoreConfig where
  "mockConfig =
     \<lparr>Type = ''HTTP'',
      Params = [(''base_url'', ''http://127.0.0.1:8080''),
                (''header_Authorization'', ''Bearer test-token'')]\<rparr>"

definition mockStore :: HTTPDataStore where
  "mockStore =
     \<lparr>client = \<lparr>Timeout = 30000000000\<rparr>, baseURL = ''http://127.0.0.1:8080/'',
      headers = [(''Authorization'', ''Bearer test-token'')]\<rparr>"

text \<open>The number of \<^verbatim>\<open>/\<close> separators at the end of a string.\<close>

definition trailingSeparators :: "string \<Rightarrow> nat" where
  "trailingSeparators s = length (takeWhile (\<lambda>c. c = CHR ''/'') (rev s))"

text \<open>The value of a string of decimal digits read after the number \<open>n\<close>.\<close>

definition decval :: "int \<Rightarrow> string \<Rightarrow> int" where
  "decval n cs = foldl (\<lambda>a c. 10 * a + (int (of_char c) - 48)) n cs"

section \<open>Properties\<close>

subsection \<open>What an operation sends and what it returns\<close>

lemma fold_Header_Set_URL:
  "URL (fold (\<lambda>(key, v) r. r\<lparr>ReqHeader := Header_Set key v (ReqHeader r)\<rparr>) hs r) = URL r \<and>
   Method (fold (\<lambda>(key, v) r. r\<lparr>ReqHeader := Header_Set key v (ReqHeader r)\<rparr>) hs r) = Method r"
  by (induction hs arbitrary: r) auto

lemma addHeaders_URL [simp]: "URL (addHeaders h r) = URL r"
  by (simp add: addHeaders_def fold_Header_Set_URL)

lemma addHeaders_Method [simp]: "Method (addHeaders h r) = Method r"
  by (simp add: addHeaders_def fold_Header_Set_URL)

lemma doHeadRequest_sent:
  "fst (doHeadRequest lib h p) = [] \<or> fst (doHeadRequest lib h p) = [requestFor h ''HEAD'' p]"
  by (simp add: doHeadRequest_def NewRequestWithContext_def requestFor_def Let_def
      split: sum.splits option.splits)

lemma doHeadRequest_result:
  "req \<in> set (fst (doHeadRequest lib h p)) \<Longrightarrow>
   snd (doHeadRequest lib h p) =
     (case Do lib (client h) req of
        Inl err \<Rightarrow> Inl (wrapError (''HEAD request failed for '' @ p @ '': '') err)
      | Inr resp \<Rightarrow> (case checkHTTPStatus resp p of Some err \<Rightarrow> Inl err | None \<Rightarrow> Inr resp))"
  by (auto simp add: doHeadRequest_def NewRequestWithContext_def Let_def
      split: sum.splits option.splits)

lemma GetFile_sent:
  "fst (GetFile lib h p) = [] \<or> fst (GetFile lib h p) = [requestFor h ''GET'' p]"
  by (simp add: GetFile_def NewRequestWithContext_def requestFor_def Let_def
      split: sum.splits option.splits)

lemma GetFile_result:
  "req \<in> set (fst (GetFile lib h p)) \<Longrightarrow>
   snd (GetFile lib h p) =
     (case Do lib (client h) req of
        Inl err \<Rightarrow> Inl (wrapError (''GET request failed for '' @ p @ '': '') err)
      | Inr resp \<Rightarrow>
          (case checkHTTPStatus resp p of Some err \<Rightarrow> Inl err | None \<Rightarrow> Inr (Body resp)))"
  by (auto simp add: GetFile_def NewRequestWithContext_def Let_def
      split: sum.splits option.splits)

lemma GetFileMetadata_sent [simp]:
  "fst (GetFileMetadata lib h p) = fst (doHeadRequest lib h p)"
  by (simp add: GetFileMetadata_def split: prod.splits sum.splits)

lemma GetFileMetadata_result:
  "snd (GetFileMetadata lib h p) =
     map_sum id (\<lambda>resp. metadataOf (Header resp)) (snd (doHeadRequest lib h p))"
  by (simp add: GetFileMetadata_def split: prod.splits sum.splits)

lemma GetFileLastModified_sent [simp]:
  "fst (GetFileLastModified lib h p) = fst (doHeadRequest lib h p)"
  by (simp add: GetFileLastModified_def GetFileMetadata_def
      split: prod.splits sum.splits option.splits)

lemma Size_sent [simp]: "fst (Size lib h p) = fst (doHeadRequest lib h p)"
  by (simp add: Size_def GetFileMetadata_def split: prod.splits sum.splits option.splits)

lemma Exists_sent [simp]: "fst (Exists lib h p) = fst (doHeadRequest lib h p)"
  by (simp add: Exists_def split: prod.splits sum.splits option.splits)

lemma GetFileLastModified_error:
  "snd (doHeadRequest lib h p) = Inl err \<Longrightarrow> snd (GetFileLastModified lib h p) = Inl err"
  by (cases "doHeadRequest lib h p") (simp add: GetFileLastModified_def GetFileMetadata_def)

lemma Size_error:
  "snd (doHeadRequest lib h p) = Inl err \<Longrightarrow> snd (Size lib h p) = (0, Some err)"
  by (cases "doHeadRequest lib h p") (simp add: Size_def GetFileMetadata_def)

lemma checkHTTPStatus_NotFound:
  "StatusCode resp = StatusNotFound \<Longrightarrow> checkHTTPStatus resp p = Some ErrNotExist"
  by (simp add: checkHTTPStatus_def StatusNotFound_def StatusOK_def)

text \<open>An operation that sent anything sent the request built for its path.\<close>

lemma GET_sent:
  "length (fst (GetFile lib h p)) = 1 \<Longrightarrow> requestFor h ''GET'' p \<in> set (fst (GetFile lib h p))"
  using GetFile_sent [of lib h p] by auto

lemma HEAD_sent:
  "length (fst (doHeadRequest lib h p)) = 1 \<Longrightarrow>
   requestFor h ''HEAD'' p \<in> set (fst (doHeadRequest lib h p))"
  using doHeadRequest_sent [of lib h p] by auto


lemma checkHTTPStatus_other:
  "StatusCode resp \<noteq> StatusOK \<Longrightarrow> StatusCode resp \<noteq> StatusNotFound \<Longrightarrow>
   checkHTTPStatus resp p =
     Some (errorString (''HTTP error '' @ itoa (StatusCode resp) @ '' for file '' @ p))"
  by (simp add: checkHTTPStatus_def)

lemma Exists_result:
  "snd (Exists lib h p) =
     (case snd (doHeadRequest lib h p) of
        Inl err \<Rightarrow> if errors_Is err ErrNotExist then (False, None) else (False, Some err)
      | Inr resp \<Rightarrow> (True, None))"
  by (cases "doHeadRequest lib h p") (simp add: Exists_def split: sum.splits)

lemma requestFor_URL [simp]: "URL (requestFor h m p) = baseURL h @ p"
  by (simp add: requestFor_def buildURL_def)

lemma requestFor_Method [simp]: "Method (requestFor h m p) = m"
  by (simp add: requestFor_def)

lemma doHeadRequest_sent_cases:
  "r \<in> set (fst (doHeadRequest lib h p)) \<Longrightarrow> r = requestFor h ''HEAD'' p"
  using doHeadRequest_sent [of lib h p] by auto

lemma GetFile_sent_cases:
  "r \<in> set (fst (GetFile lib h p)) \<Longrightarrow> r = requestFor h ''GET'' p"
  using GetFile_sent [of lib h p] by auto

text \<open>The rendering of \<^verbatim>\<open>%d\<close> is the decimal numeral of the number.\<close>

lemma digit_table: "map digit [0, 1, 2, 3, 4, 5, 6, 7, 8, 9] = ''0123456789''"
  by code_simp

lemma digit_in_digits: "d < 10 \<Longrightarrow> digit d \<in> set ''0123456789''"
proof -
  assume "d < 10"
  then have "d = 0 \<or> d = 1 \<or> d = 2 \<or> d = 3 \<or> d = 4 \<or> d = 5 \<or> d = 6 \<or> d = 7 \<or> d = 8 \<or> d = 9"
    by arith
  then have "d \<in> set [0, 1, 2, 3, 4, 5, 6, 7, 8, 9]"
    by auto
  then have "digit d \<in> set (map digit [0, 1, 2, 3, 4, 5, 6, 7, 8, 9])"
    by (simp only: set_map) (rule imageI)
  then show ?thesis
    by (simp only: digit_table)
qed

lemma of_char_digit: "d < 10 \<Longrightarrow> of_char (digit d) = (48 + d :: nat)"
  by (simp add: digit_def)

lemma utoa_digits: "list_all (\<lambda>c. c \<in> set ''0123456789'') (utoa n)"
proof (induction n rule: utoa.induct)
  case (1 n)
  show ?case
  proof (cases "n < 10")
    case True
    then show ?thesis
      using digit_in_digits [of n] by (subst utoa.simps) simp
  next
    case False
    then show ?thesis
      using 1 digit_in_digits [of "n mod 10"] by (subst utoa.simps) simp
  qed
qed

lemma utoa_value: "foldl (\<lambda>a c. 10 * a + (int (of_char c) - 48)) 0 (utoa n) = int n"
proof (induction n rule: utoa.induct)
  case (1 n)
  show ?case
  proof (cases "n < 10")
    case True
    then show ?thesis
      by (subst utoa.simps) (simp add: of_char_digit)
  next
    case False
    then have "foldl (\<lambda>a c. 10 * a + (int (of_char c) - 48)) 0 (utoa n) =
        10 * int (n div 10) + int (n mod 10)"
      using 1 by (subst utoa.simps) (simp add: of_char_digit)
    moreover have "10 * int (n div 10) + int (n mod 10) = int (10 * (n div 10) + n mod 10)"
      by (simp only: of_nat_add of_nat_mult of_nat_numeral)
    ultimately show ?thesis
      by (simp only: mult_div_mod_eq)
  qed
qed

lemma utoa_no_leading_zero: "utoa n \<noteq> [] \<and> (hd (utoa n) = CHR ''0'' \<longrightarrow> n = 0)"
proof (induction n rule: utoa.induct)
  case (1 n)
  show ?case
  proof (cases "n < 10")
    case True
    have "digit n = CHR ''0'' \<Longrightarrow> n = 0"
    proof -
      assume "digit n = CHR ''0''"
      then have "of_char (digit n) = (of_char (CHR ''0'') :: nat)" by simp
      then show "n = 0" using True by (simp add: of_char_digit)
    qed
    then show ?thesis
      using True by (subst (1 2) utoa.simps) auto
  next
    case False
    then have "n div 10 \<noteq> 0" by simp
    then show ?thesis
      using 1 False by (subst (1 2) utoa.simps) auto
  qed
qed

lemma itoa_decimal:
  assumes "0 \<le> i"
  shows "list_all (\<lambda>c. c \<in> set ''0123456789'') (itoa i) \<and>
         foldl (\<lambda>a c. 10 * a + (int (of_char c) - 48)) 0 (itoa i) = i \<and>
         (hd (itoa i) = CHR ''0'' \<longrightarrow> i = 0)"
proof -
  have eq: "itoa i = utoa (nat i)"
    using assms by (simp add: itoa_def)
  have "hd (utoa (nat i)) = CHR ''0'' \<longrightarrow> nat i = 0"
    using utoa_no_leading_zero [of "nat i"] by (rule conjunct2)
  then have z: "hd (utoa (nat i)) = CHR ''0'' \<longrightarrow> i = 0"
    using assms by auto
  have v: "foldl (\<lambda>a c. 10 * a + (int (of_char c) - 48)) 0 (utoa (nat i)) = i"
    using utoa_value [of "nat i"] assms by simp
  show ?thesis
    unfolding eq using utoa_digits [of "nat i"] v z by blast
qed

lemma itoa_negative: "i < 0 \<Longrightarrow> itoa i = CHR ''-'' # itoa (- i)"
  by (simp add: itoa_def)

text \<open>\<^verbatim>\<open>ParseInt\<close> accepts the decimal numerals of the signed 64-bit range, and reads their value.\<close>

lemma isDigit_iff: "isDigit c = (c \<in> set ''0123456789'')"
proof
  assume "isDigit c"
  then have b: "48 \<le> (of_char c :: nat)" "(of_char c :: nat) \<le> 57"
    by (simp_all add: isDigit_def byte_def)
  then have "(of_char c :: nat) - 48 < 10" by arith
  then have "digit (of_char c - 48) \<in> set ''0123456789''" by (rule digit_in_digits)
  moreover have "digit (of_char c - 48) = c"
    using b by (simp add: digit_def)
  ultimately show "c \<in> set ''0123456789''" by simp
next
  assume "c \<in> set ''0123456789''"
  then show "isDigit c"
    by (auto simp add: isDigit_def byte_def)
qed

lemma isDigit_range: "isDigit c \<Longrightarrow> 0 \<le> int (byte c) - 48 \<and> int (byte c) - 48 \<le> 9"
  by (simp add: isDigit_def)

lemma decval_mono: "list_all isDigit cs \<Longrightarrow> n \<le> decval n cs" if "0 \<le> n"
  using that
proof (induction cs arbitrary: n)
  case Nil
  then show ?case by (simp add: decval_def)
next
  case (Cons c cs)
  have d: "0 \<le> int (byte c) - 48" using Cons.prems isDigit_range by simp
  let ?n1 = "10 * n + (int (of_char c) - 48)"
  have "n \<le> ?n1" using d Cons.prems(2) by (simp add: byte_def)
  moreover have "?n1 \<le> decval ?n1 cs"
    using Cons.IH [of ?n1] Cons.prems d by (simp add: byte_def)
  ultimately show ?case by (simp add: decval_def)
qed

lemma cutoff_val: "maxUint64 div 10 + 1 = 1844674407370955162" "maxUint64 = 18446744073709551615"
  by (simp_all add: maxUint64_def)

lemma decval_Cons: "decval n (c # cs) = decval (10 * n + (int (byte c) - 48)) cs"
  by (simp add: decval_def byte_def)

lemma ParseUint_loop_iff:
  "0 \<le> n \<Longrightarrow> n \<le> maxUint64 \<Longrightarrow>
   (ParseUint_loop n cs = Some (Some m)) =
     (list_all isDigit cs \<and> m = decval n cs \<and> m \<le> maxUint64)"
proof (induction cs arbitrary: n)
  case Nil
  then show ?case by (auto simp add: decval_def)
next
  case (Cons c cs)
  let ?n1 = "10 * n + (int (byte c) - 48)"
  show ?case
  proof (cases "isDigit c")
    case False
    then show ?thesis by simp
  next
    case True
    then have d: "0 \<le> int (byte c) - 48" "int (byte c) - 48 \<le> 9"
      using isDigit_range by simp_all
    have n1: "0 \<le> ?n1" using d Cons.prems by simp
    show ?thesis
    proof (cases "n \<ge> maxUint64 div 10 + 1 \<or> ?n1 > maxUint64")
      case over: True
      then have big: "?n1 > maxUint64"
        using d by (auto simp add: cutoff_val)
      have "\<not> (list_all isDigit cs \<and> decval ?n1 cs \<le> maxUint64)"
        using decval_mono [OF n1, of cs] big by auto
      moreover have "ParseUint_loop n (c # cs) = Some None"
        using True over by (auto simp add: Let_def mult.commute)
      ultimately show ?thesis
        using True by (auto simp add: decval_Cons)
    next
      case ok: False
      then have le: "?n1 \<le> maxUint64" by simp
      have "ParseUint_loop n (c # cs) = ParseUint_loop ?n1 cs"
        using True ok by (auto simp add: Let_def mult.commute)
      then show ?thesis
        using Cons.IH [OF n1 le] True by (simp add: decval_Cons)
    qed
  qed
qed

lemma ParseUint_iff:
  "(ParseUint s = Some (Some m)) =
     (s \<noteq> [] \<and> list_all isDigit s \<and> m = decval 0 s \<and> m \<le> maxUint64)"
  using ParseUint_loop_iff [of 0 s m] by (auto simp add: ParseUint_def cutoff_val)

lemma ParseInt_Inr:
  "(ParseInt s = Inr n) =
     (s \<noteq> [] \<and>
      (\<exists>un. ParseUint (if hd s = CHR ''+'' \<or> hd s = CHR ''-'' then tl s else s) = Some (Some un) \<and>
            (if hd s = CHR ''-'' then un \<le> 2 ^ 63 \<and> n = - un else un < 2 ^ 63 \<and> n = un)))"
  by (auto simp add: ParseInt_def Let_def split: option.splits)

lemma ParseInt_unsigned:
  "(\<exists>un. ParseUint ds = Some (Some un) \<and> un < 2 ^ 63 \<and> n = un) =
     (ds \<noteq> [] \<and> list_all isDigit ds \<and> n = decval 0 ds \<and> n < 2 ^ 63)"
  by (auto simp add: ParseUint_iff cutoff_val)

lemma ParseInt_negated:
  "(\<exists>un. ParseUint ds = Some (Some un) \<and> un \<le> 2 ^ 63 \<and> n = - un) =
     (ds \<noteq> [] \<and> list_all isDigit ds \<and> n = - decval 0 ds \<and> - (2 ^ 63) \<le> n)"
  by (auto simp add: ParseUint_iff cutoff_val)

lemma ParseInt_digits:
  "(ParseInt s = Inr n) =
     ((\<exists>ds. (s = ds \<or> s = CHR ''+'' # ds) \<and> ds \<noteq> [] \<and> list_all isDigit ds \<and>
            n = decval 0 ds \<and> n < 2 ^ 63) \<or>
      (\<exists>ds. s = CHR ''-'' # ds \<and> ds \<noteq> [] \<and> list_all isDigit ds \<and>
            n = - decval 0 ds \<and> - (2 ^ 63) \<le> n))"
    (is "?L = (?P \<or> ?N)")
proof -
  have nd: "\<not> isDigit CHR ''+''" "\<not> isDigit CHR ''-''"
    by (simp_all add: isDigit_def byte_def)
  show ?thesis
  proof (cases s)
    case Nil
    then show ?thesis by (simp add: ParseInt_def)
  next
    case (Cons c cs)
    consider (minus) "c = CHR ''-''" | (plus) "c = CHR ''+''" | (other) "c \<noteq> CHR ''-''" "c \<noteq> CHR ''+''"
      by blast
    then show ?thesis
    proof cases
      case minus
      have "\<not> ?P"
        using Cons minus nd by auto
      moreover have "?L = (cs \<noteq> [] \<and> list_all isDigit cs \<and> n = - decval 0 cs \<and> - (2 ^ 63) \<le> n)"
        using Cons minus ParseInt_negated [of cs n] by (simp add: ParseInt_Inr)
      moreover have "?N = (cs \<noteq> [] \<and> list_all isDigit cs \<and> n = - decval 0 cs \<and> - (2 ^ 63) \<le> n)"
        using Cons minus by simp
      ultimately show ?thesis by blast
    next
      case plus
      have "\<not> ?N"
        using Cons plus by simp
      moreover have "?L = (cs \<noteq> [] \<and> list_all isDigit cs \<and> n = decval 0 cs \<and> n < 2 ^ 63)"
        using Cons plus ParseInt_unsigned [of cs n] by (simp add: ParseInt_Inr)
      moreover have "?P = (cs \<noteq> [] \<and> list_all isDigit cs \<and> n = decval 0 cs \<and> n < 2 ^ 63)"
        using Cons plus nd by auto
      ultimately show ?thesis by blast
    next
      case other
      have "\<not> ?N"
        using Cons other by simp
      moreover have "?L = (list_all isDigit s \<and> n = decval 0 s \<and> n < 2 ^ 63)"
        using Cons other ParseInt_unsigned [of s n] by (simp add: ParseInt_Inr)
      moreover have "?P = (list_all isDigit s \<and> n = decval 0 s \<and> n < 2 ^ 63)"
        using Cons other by auto
      ultimately show ?thesis by blast
    qed
  qed
qed

lemma digits_isDigit: "list_all (\<lambda>c. c \<in> set ''0123456789'') = list_all isDigit"
  by (rule arg_cong [where f = list_all]) (rule ext, rule isDigit_iff [symmetric])

lemma foldl_decval: "foldl (\<lambda>a c. 10 * a + (int (of_char c) - 48)) 0 = decval 0"
  by (rule ext) (simp add: decval_def)

lemma ParseInt_iff:
  "(ParseInt s = Inr n) =
     ((\<exists>ds. (s = ds \<or> s = CHR ''+'' # ds) \<and> ds \<noteq> [] \<and> list_all (\<lambda>c. c \<in> set ''0123456789'') ds \<and>
            n = foldl (\<lambda>a c. 10 * a + (int (of_char c) - 48)) 0 ds \<and> n < 2 ^ 63) \<or>
      (\<exists>ds. s = CHR ''-'' # ds \<and> ds \<noteq> [] \<and> list_all (\<lambda>c. c \<in> set ''0123456789'') ds \<and>
            n = - foldl (\<lambda>a c. 10 * a + (int (of_char c) - 48)) 0 ds \<and> - (2 ^ 63) \<le> n))"
  unfolding digits_isDigit foldl_decval by (rule ParseInt_digits)

lemma Size_result:
  "snd (Size lib h p) =
     (case snd (GetFileMetadata lib h p) of
        Inl err \<Rightarrow> (0, Some err)
      | Inr metadata \<Rightarrow>
          (case metadata ''content-length'' of
             Some contentLength \<Rightarrow>
               (case ParseInt contentLength of
                  Inl err \<Rightarrow>
                    (0, Some (errorString (''invalid content-length header: '' @ contentLength)))
                | Inr n \<Rightarrow> (n, None))
           | None \<Rightarrow> (0, Some (errorString ''content-length header not found''))))"
  by (cases "GetFileMetadata lib h p") (simp add: Size_def split: sum.splits option.splits)

text \<open>What a successful construction has read and what it stores.\<close>

lemma HasSuffix_slash: "HasSuffix s ''/'' = (s \<noteq> [] \<and> last s = CHR ''/'')"
  by (cases s rule: rev_cases) (auto simp add: HasSuffix_def)

lemma trailingSeparators_0: "(trailingSeparators s = 0) = (\<not> HasSuffix s ''/'')"
  by (cases s rule: rev_cases) (auto simp add: HasSuffix_slash trailingSeparators_def)

lemma trailingSeparators_append:
  "trailingSeparators s = 0 \<Longrightarrow> trailingSeparators (s @ ''/'') = 1"
  by (cases s rule: rev_cases) (auto simp add: trailingSeparators_def)

lemma NewHTTPDataStore_Inr_iff:
  "(NewHTTPDataStore lib cfg = Inr h) =
     (\<exists>b u t. map_of (Params cfg) ''base_url'' = Some b \<and> url_Parse lib b = Inr u \<and>
        (Scheme u = ''http'' \<or> Scheme u = ''https'') \<and>
        (case map_of (Params cfg) ''timeout'' of
           None \<Rightarrow> Inr (30 * Second) | Some timeoutStr \<Rightarrow> ParseDuration lib timeoutStr) = Inr t \<and>
        h = \<lparr>client = \<lparr>Timeout = t\<rparr>,
             baseURL = (if \<not> HasSuffix b ''/'' then b @ ''/'' else b),
             headers = collectHeaders (Params cfg)\<rparr>)"
proof (cases "map_of (Params cfg) ''base_url''")
  case None
  then show ?thesis by (simp add: NewHTTPDataStore_def)
next
  case (Some b)
  show ?thesis
  proof (cases "url_Parse lib b")
    case (Inl e)
    then show ?thesis using Some by (simp add: NewHTTPDataStore_def)
  next
    case (Inr u)
    show ?thesis
    proof (cases "Scheme u = ''http'' \<or> Scheme u = ''https''")
      case False
      then show ?thesis using Some Inr by (simp add: NewHTTPDataStore_def)
    next
      case True
      let ?t = "case map_of (Params cfg) ''timeout'' of
           None \<Rightarrow> Inr (30 * Second) | Some timeoutStr \<Rightarrow> ParseDuration lib timeoutStr"
      show ?thesis
      proof (cases ?t)
        case l: (Inl e)
        then show ?thesis using Some Inr True by (simp add: NewHTTPDataStore_def Let_def)
      next
        case r: (Inr t)
        then show ?thesis using Some Inr True by (auto simp add: NewHTTPDataStore_def Let_def)
      qed
    qed
  qed
qed

lemma NewHTTPDataStore_baseURL:
  assumes "NewHTTPDataStore lib cfg = Inr h"
  shows "\<exists>b. map_of (Params cfg) ''base_url'' = Some b \<and>
             baseURL h = (if HasSuffix b ''/'' then b else b @ ''/'')"
  using assms unfolding NewHTTPDataStore_Inr_iff by auto

subsection \<open>Not found\<close>

text \<open>
  Claim C1. Whenever the backend answers the request of a read operation with status
  404, the operation returns \<^verbatim>\<open>os.ErrNotExist\<close> itself: \<^verbatim>\<open>GetFile\<close>,
  \<^verbatim>\<open>GetFileMetadata\<close> and \<^verbatim>\<open>GetFileLastModified\<close> as their error, \<^verbatim>\<open>Size\<close> as its
  error next to the size 0. The error is the sentinel, not a formatted message.
\<close>

theorem not_found_is_ErrNotExist:
  assumes "Do lib (client h) req = Inr resp" and "StatusCode resp = StatusNotFound"
  shows "(req \<in> set (fst (GetFile lib h p)) \<longrightarrow> snd (GetFile lib h p) = Inl ErrNotExist) \<and>
         (req \<in> set (fst (GetFileMetadata lib h p)) \<longrightarrow>
            snd (GetFileMetadata lib h p) = Inl ErrNotExist) \<and>
         (req \<in> set (fst (GetFileLastModified lib h p)) \<longrightarrow>
            snd (GetFileLastModified lib h p) = Inl ErrNotExist) \<and>
         (req \<in> set (fst (Size lib h p)) \<longrightarrow> snd (Size lib h p) = (0, Some ErrNotExist))"
proof -
  have st: "checkHTTPStatus resp p = Some ErrNotExist"
    using assms(2) by (rule checkHTTPStatus_NotFound)
  have get: "snd (GetFile lib h p) = Inl ErrNotExist" if "req \<in> set (fst (GetFile lib h p))"
    using GetFile_result [OF that] assms(1) st by simp
  have head: "snd (doHeadRequest lib h p) = Inl ErrNotExist"
    if "req \<in> set (fst (doHeadRequest lib h p))"
    using doHeadRequest_result [OF that] assms(1) st by simp
  show ?thesis
    using get head by (simp add: GetFileMetadata_result GetFileLastModified_error Size_error)
qed

theorem not_found_is_ErrNotExist_witness:
  "Do mockLib (client mockStore) (requestFor mockStore ''GET'' ''nonexistent.txt'') =
     Inr \<lparr>StatusCode = 404, Header = [], Body = []\<rparr> \<and>
   Do mockLib (client mockStore) (requestFor mockStore ''HEAD'' ''nonexistent.txt'') =
     Inr \<lparr>StatusCode = 404, Header = [], Body = []\<rparr> \<and>
   requestFor mockStore ''GET'' ''nonexistent.txt''
     \<in> set (fst (GetFile mockLib mockStore ''nonexistent.txt'')) \<and>
   requestFor mockStore ''HEAD'' ''nonexistent.txt''
     \<in> set (fst (Size mockLib mockStore ''nonexistent.txt'')) \<and>
   snd (GetFile mockLib mockStore ''nonexistent.txt'') = Inl ErrNotExist \<and>
   snd (GetFileMetadata mockLib mockStore ''nonexistent.txt'') = Inl ErrNotExist \<and>
   snd (GetFileLastModified mockLib mockStore ''nonexistent.txt'') = Inl ErrNotExist \<and>
   snd (Size mockLib mockStore ''nonexistent.txt'') = (0, Some ErrNotExist)"
proof -
  let ?p = "''nonexistent.txt''"
  let ?r = "\<lparr>StatusCode = 404, Header = [], Body = []\<rparr>"
  have "length (fst (GetFile mockLib mockStore ?p)) = 1"
    by code_simp
  then have g: "requestFor mockStore ''GET'' ?p \<in> set (fst (GetFile mockLib mockStore ?p))"
    by (rule GET_sent)
  have "length (fst (doHeadRequest mockLib mockStore ?p)) = 1"
    by code_simp
  then have d: "requestFor mockStore ''HEAD'' ?p \<in> set (fst (doHeadRequest mockLib mockStore ?p))"
    by (rule HEAD_sent)
  have dg: "Do mockLib (client mockStore) (requestFor mockStore ''GET'' ?p) = Inr ?r"
    by code_simp
  have dh: "Do mockLib (client mockStore) (requestFor mockStore ''HEAD'' ?p) = Inr ?r"
    by code_simp
  have s: "StatusCode ?r = StatusNotFound"
    by (simp add: StatusNotFound_def)
  show ?thesis
    using not_found_is_ErrNotExist [OF dg s, of ?p] not_found_is_ErrNotExist [OF dh s, of ?p]
      g d dg dh
    by simp
qed

subsection \<open>Existence\<close>




subsection \<open>Writing and listing\<close>

text \<open>
  Claim C3. Whatever the path, the payload, the metadata, the prefix and the limit,
  \<^verbatim>\<open>PutFile\<close>, \<^verbatim>\<open>PutFileIfNotExists\<close> and \<^verbatim>\<open>ListFilePaths\<close> send no request and return
  their not-supported error; \<^verbatim>\<open>PutFileIfNotExists\<close> reports \<^verbatim>\<open>false\<close> and
  \<^verbatim>\<open>ListFilePaths\<close> no path.
\<close>

theorem read_only_operations_unsupported:
  "PutFile h path input metaData =
     ([], Some (errorString ''HTTP datastore is read-only, PutFile not supported'')) \<and>
   PutFileIfNotExists h path input metaData =
     ([], False, Some (errorString ''HTTP datastore is read-only, PutFileIfNotExists not supported'')) \<and>
   ListFilePaths h pfx limit =
     ([], [], Some (errorString ''HTTP datastore does not support listing files''))"
  by (simp add: PutFile_def PutFileIfNotExists_def ListFilePaths_def)

subsection \<open>The requested address\<close>

text \<open>
  Claim C8. The address that a read operation requests is the stored base address
  followed by the path, byte for byte: \<^verbatim>\<open>buildURL\<close> concatenates, and every request
  that \<^verbatim>\<open>GetFile\<close>, \<^verbatim>\<open>GetFileMetadata\<close>, \<^verbatim>\<open>GetFileLastModified\<close>, \<^verbatim>\<open>Exists\<close> and
  \<^verbatim>\<open>Size\<close> send carries that URL. Segments such as \<^verbatim>\<open>..\<close> stay as they are.
\<close>

theorem request_URL_is_base_then_path:
  "buildURL h p = baseURL h @ p \<and>
   (\<forall>r \<in> set (fst (GetFile lib h p)). URL r = baseURL h @ p) \<and>
   (\<forall>r \<in> set (fst (GetFileMetadata lib h p)). URL r = baseURL h @ p) \<and>
   (\<forall>r \<in> set (fst (GetFileLastModified lib h p)). URL r = baseURL h @ p) \<and>
   (\<forall>r \<in> set (fst (Exists lib h p)). URL r = baseURL h @ p) \<and>
   (\<forall>r \<in> set (fst (Size lib h p)). URL r = baseURL h @ p)"
  by (auto simp add: buildURL_def dest!: doHeadRequest_sent_cases GetFile_sent_cases)

theorem request_URL_is_base_then_path_witness:
  "requestFor mockStore ''GET'' ''../private/secret.txt''
     \<in> set (fst (GetFile mockLib mockStore ''../private/secret.txt'')) \<and>
   requestFor mockStore ''HEAD'' ''../private/secret.txt''
     \<in> set (fst (Size mockLib mockStore ''../private/secret.txt'')) \<and>
   URL (requestFor mockStore ''GET'' ''../private/secret.txt'') =
     ''http://127.0.0.1:8080/../private/secret.txt'' \<and>
   URL (requestFor mockStore ''HEAD'' ''../private/secret.txt'') =
     ''http://127.0.0.1:8080/../private/secret.txt''"
proof -
  let ?p = "''../private/secret.txt''"
  have "length (fst (GetFile mockLib mockStore ?p)) = 1"
    by code_simp
  then have g: "requestFor mockStore ''GET'' ?p \<in> set (fst (GetFile mockLib mockStore ?p))"
    by (rule GET_sent)
  have "length (fst (doHeadRequest mockLib mockStore ?p)) = 1"
    by code_simp
  then have d: "requestFor mockStore ''HEAD'' ?p \<in> set (fst (Size mockLib mockStore ?p))"
    by (simp add: HEAD_sent)
  have b: "baseURL mockStore @ ?p = ''http://127.0.0.1:8080/../private/secret.txt''"
    by (simp add: mockStore_def)
  show ?thesis
    using request_URL_is_base_then_path [of mockStore ?p mockLib] g d b by auto
qed

subsection \<open>Other status codes\<close>

text \<open>
  Claim C9. When the backend answers with a status other than 200 and 404, each read
  operation fails with the error whose message is \<^verbatim>\<open>HTTP error\<close>, the status code in
  decimal, \<^verbatim>\<open>for file\<close> and the path. The status code in the message is its decimal
  numeral: digits only, of the value of the status code, with no leading zero, and with a
  minus sign in front when the code is negative.
\<close>

theorem other_status_is_backend_error:
  assumes "Do lib (client h) req = Inr resp"
    and "StatusCode resp \<noteq> StatusOK" and "StatusCode resp \<noteq> StatusNotFound"
  shows "(req \<in> set (fst (GetFile lib h p)) \<longrightarrow>
            snd (GetFile lib h p) =
              Inl (errorString (''HTTP error '' @ itoa (StatusCode resp) @ '' for file '' @ p))) \<and>
         (req \<in> set (fst (GetFileMetadata lib h p)) \<longrightarrow>
            snd (GetFileMetadata lib h p) =
              Inl (errorString (''HTTP error '' @ itoa (StatusCode resp) @ '' for file '' @ p))) \<and>
         (req \<in> set (fst (GetFileLastModified lib h p)) \<longrightarrow>
            snd (GetFileLastModified lib h p) =
              Inl (errorString (''HTTP error '' @ itoa (StatusCode resp) @ '' for file '' @ p))) \<and>
         (req \<in> set (fst (Size lib h p)) \<longrightarrow>
            snd (Size lib h p) =
              (0, Some (errorString (''HTTP error '' @ itoa (StatusCode resp) @ '' for file '' @ p)))) \<and>
         (req \<in> set (fst (Exists lib h p)) \<longrightarrow>
            snd (Exists lib h p) =
              (False, Some (errorString (''HTTP error '' @ itoa (StatusCode resp) @ '' for file '' @ p)))) \<and>
         (0 \<le> StatusCode resp \<longrightarrow>
            list_all (\<lambda>c. c \<in> set ''0123456789'') (itoa (StatusCode resp)) \<and>
            foldl (\<lambda>a c. 10 * a + (int (of_char c) - 48)) 0 (itoa (StatusCode resp)) =
              StatusCode resp \<and>
            (hd (itoa (StatusCode resp)) = CHR ''0'' \<longrightarrow> StatusCode resp = 0)) \<and>
         (StatusCode resp < 0 \<longrightarrow>
            itoa (StatusCode resp) = CHR ''-'' # itoa (- StatusCode resp))"
proof -
  let ?e = "errorString (''HTTP error '' @ itoa (StatusCode resp) @ '' for file '' @ p)"
  have st: "checkHTTPStatus resp p = Some ?e"
    using assms(2,3) by (rule checkHTTPStatus_other)
  have get: "snd (GetFile lib h p) = Inl ?e" if "req \<in> set (fst (GetFile lib h p))"
    using GetFile_result [OF that] assms(1) st by simp
  have head: "snd (doHeadRequest lib h p) = Inl ?e"
    if "req \<in> set (fst (doHeadRequest lib h p))"
    using doHeadRequest_result [OF that] assms(1) st by simp
  have ops: "(req \<in> set (fst (GetFile lib h p)) \<longrightarrow> snd (GetFile lib h p) = Inl ?e) \<and>
      (req \<in> set (fst (GetFileMetadata lib h p)) \<longrightarrow> snd (GetFileMetadata lib h p) = Inl ?e) \<and>
      (req \<in> set (fst (GetFileLastModified lib h p)) \<longrightarrow>
         snd (GetFileLastModified lib h p) = Inl ?e) \<and>
      (req \<in> set (fst (Size lib h p)) \<longrightarrow> snd (Size lib h p) = (0, Some ?e)) \<and>
      (req \<in> set (fst (Exists lib h p)) \<longrightarrow> snd (Exists lib h p) = (False, Some ?e))"
    using get head
    by (simp add: GetFileMetadata_result GetFileLastModified_error Size_error Exists_result)
  show ?thesis
    using ops itoa_decimal [of "StatusCode resp"] itoa_negative [of "StatusCode resp"] by blast
qed

theorem other_status_is_backend_error_witness:
  "Do mockLib (client (mockStore\<lparr>headers := []\<rparr>))
      (requestFor (mockStore\<lparr>headers := []\<rparr>) ''GET'' ''private/secret.txt'') =
     Inr \<lparr>StatusCode = 401, Header = [], Body = []\<rparr> \<and>
   Do mockLib (client (mockStore\<lparr>headers := []\<rparr>))
      (requestFor (mockStore\<lparr>headers := []\<rparr>) ''HEAD'' ''private/secret.txt'') =
     Inr \<lparr>StatusCode = 401, Header = [], Body = []\<rparr> \<and>
   requestFor (mockStore\<lparr>headers := []\<rparr>) ''GET'' ''private/secret.txt''
     \<in> set (fst (GetFile mockLib (mockStore\<lparr>headers := []\<rparr>) ''private/secret.txt'')) \<and>
   requestFor (mockStore\<lparr>headers := []\<rparr>) ''HEAD'' ''private/secret.txt''
     \<in> set (fst (doHeadRequest mockLib (mockStore\<lparr>headers := []\<rparr>) ''private/secret.txt'')) \<and>
   snd (GetFile mockLib (mockStore\<lparr>headers := []\<rparr>) ''private/secret.txt'') =
     Inl (errorString ''HTTP error 401 for file private/secret.txt'') \<and>
   snd (GetFileMetadata mockLib (mockStore\<lparr>headers := []\<rparr>) ''private/secret.txt'') =
     Inl (errorString ''HTTP error 401 for file private/secret.txt'') \<and>
   snd (GetFileLastModified mockLib (mockStore\<lparr>headers := []\<rparr>) ''private/secret.txt'') =
     Inl (errorString ''HTTP error 401 for file private/secret.txt'') \<and>
   snd (Size mockLib (mockStore\<lparr>headers := []\<rparr>) ''private/secret.txt'') =
     (0, Some (errorString ''HTTP error 401 for file private/secret.txt'')) \<and>
   snd (Exists mockLib (mockStore\<lparr>headers := []\<rparr>) ''private/secret.txt'') =
     (False, Some (errorString ''HTTP error 401 for file private/secret.txt'')) \<and>
   (0::int) \<le> 401 \<and>
   foldl (\<lambda>a c. 10 * a + (int (of_char c) - 48)) 0 ''401'' = 401"
proof -
  let ?h = "mockStore\<lparr>headers := []\<rparr>"
  let ?p = "''private/secret.txt''"
  let ?r = "\<lparr>StatusCode = 401, Header = [], Body = []\<rparr>"
  have "length (fst (GetFile mockLib ?h ?p)) = 1"
    by code_simp
  then have g: "requestFor ?h ''GET'' ?p \<in> set (fst (GetFile mockLib ?h ?p))"
    by (rule GET_sent)
  have "length (fst (doHeadRequest mockLib ?h ?p)) = 1"
    by code_simp
  then have d: "requestFor ?h ''HEAD'' ?p \<in> set (fst (doHeadRequest mockLib ?h ?p))"
    by (rule HEAD_sent)
  have dg: "Do mockLib (client ?h) (requestFor ?h ''GET'' ?p) = Inr ?r"
    by code_simp
  have dh: "Do mockLib (client ?h) (requestFor ?h ''HEAD'' ?p) = Inr ?r"
    by code_simp
  have s: "StatusCode ?r \<noteq> StatusOK" "StatusCode ?r \<noteq> StatusNotFound"
    by (simp_all add: StatusOK_def StatusNotFound_def)
  have i: "itoa 401 = ''401''"
    by code_simp
  show ?thesis
    using other_status_is_backend_error [OF dg s, of ?p] other_status_is_backend_error [OF dh s, of ?p]
      g d dg dh i
    by simp
qed

subsection \<open>Size\<close>

text \<open>
  Claim C10. \<^verbatim>\<open>Size\<close> sends what \<^verbatim>\<open>GetFileMetadata\<close> sends, requests with method
  \<^verbatim>\<open>HEAD\<close> only, so no body is transferred. It returns a nil error exactly when
  \<^verbatim>\<open>GetFileMetadata\<close> succeeds and its result has an entry \<^verbatim>\<open>content-length\<close> that
  \<^verbatim>\<open>ParseInt\<close> accepts, and then it returns the parsed number; in every other case it
  returns 0 with an error. \<^verbatim>\<open>ParseInt\<close> accepts a string exactly when it is a
  non-empty string of decimal digits after an optional sign whose value lies in the signed
  64-bit range, and the parsed number is that value.
\<close>

theorem Size_from_HEAD_metadata:
  "fst (Size lib h p) = fst (GetFileMetadata lib h p) \<and>
   (\<forall>r \<in> set (fst (Size lib h p)). Method r = ''HEAD'') \<and>
   (snd (snd (Size lib h p)) = None) =
     (\<exists>md cl n. snd (GetFileMetadata lib h p) = Inr md \<and> md ''content-length'' = Some cl \<and>
        ParseInt cl = Inr n) \<and>
   (\<forall>md cl n. snd (GetFileMetadata lib h p) = Inr md \<and> md ''content-length'' = Some cl \<and>
        ParseInt cl = Inr n \<longrightarrow> snd (Size lib h p) = (n, None)) \<and>
   (snd (snd (Size lib h p)) \<noteq> None \<longrightarrow> fst (snd (Size lib h p)) = 0) \<and>
   (\<forall>cl n. (ParseInt cl = Inr n) =
      ((\<exists>ds. (cl = ds \<or> cl = CHR ''+'' # ds) \<and> ds \<noteq> [] \<and>
            list_all (\<lambda>c. c \<in> set ''0123456789'') ds \<and>
            n = foldl (\<lambda>a c. 10 * a + (int (of_char c) - 48)) 0 ds \<and> n < 2 ^ 63) \<or>
       (\<exists>ds. cl = CHR ''-'' # ds \<and> ds \<noteq> [] \<and>
            list_all (\<lambda>c. c \<in> set ''0123456789'') ds \<and>
            n = - foldl (\<lambda>a c. 10 * a + (int (of_char c) - 48)) 0 ds \<and> - (2 ^ 63) \<le> n)))"
proof -
  have a: "fst (Size lib h p) = fst (GetFileMetadata lib h p)"
    by simp
  have b: "\<forall>r \<in> set (fst (Size lib h p)). Method r = ''HEAD''"
    by (auto dest!: doHeadRequest_sent_cases)
  have c: "(snd (snd (Size lib h p)) = None) =
     (\<exists>md cl n. snd (GetFileMetadata lib h p) = Inr md \<and> md ''content-length'' = Some cl \<and>
        ParseInt cl = Inr n)"
    by (auto simp add: Size_result split: sum.splits option.splits)
  have d: "\<forall>md cl n. snd (GetFileMetadata lib h p) = Inr md \<and> md ''content-length'' = Some cl \<and>
        ParseInt cl = Inr n \<longrightarrow> snd (Size lib h p) = (n, None)"
    by (auto simp add: Size_result)
  have e: "snd (snd (Size lib h p)) \<noteq> None \<longrightarrow> fst (snd (Size lib h p)) = 0"
    by (auto simp add: Size_result split: sum.splits option.splits)
  show ?thesis
    using a b c d e ParseInt_iff by blast
qed

theorem Size_from_HEAD_metadata_witness:
  "requestFor mockStore ''HEAD'' ''test.txt'' \<in> set (fst (Size mockLib mockStore ''test.txt'')) \<and>
   Method (requestFor mockStore ''HEAD'' ''test.txt'') = ''HEAD'' \<and>
   snd (GetFileMetadata mockLib mockStore ''test.txt'') =
     Inr (metadataOf [(''Content-Type'', [''text/plain'']), (''Content-Length'', [''13'']),
                      (''Last-Modified'', [''Thu, 01 Jan 2026 00:00:00 GMT''])]) \<and>
   metadataOf [(''Content-Type'', [''text/plain'']), (''Content-Length'', [''13'']),
               (''Last-Modified'', [''Thu, 01 Jan 2026 00:00:00 GMT''])] ''content-length'' =
     Some ''13'' \<and>
   ParseInt ''13'' = Inr 13 \<and>
   snd (Size mockLib mockStore ''test.txt'') = (13, None) \<and>
   snd (snd (Size mockLib mockStore ''nonexistent.txt'')) \<noteq> None \<and>
   fst (snd (Size mockLib mockStore ''nonexistent.txt'')) = 0"
proof -
  let ?hdr = "[(''Content-Type'', [''text/plain'']), (''Content-Length'', [''13'']),
               (''Last-Modified'', [''Thu, 01 Jan 2026 00:00:00 GMT''])]"
  have "length (fst (doHeadRequest mockLib mockStore ''test.txt'')) = 1"
    by code_simp
  then have s: "requestFor mockStore ''HEAD'' ''test.txt''
      \<in> set (fst (Size mockLib mockStore ''test.txt''))"
    by (simp add: HEAD_sent)
  have "snd (doHeadRequest mockLib mockStore ''test.txt'') =
      Inr \<lparr>StatusCode = 200, Header = ?hdr, Body = []\<rparr>"
    by code_simp
  then have md: "snd (GetFileMetadata mockLib mockStore ''test.txt'') = Inr (metadataOf ?hdr)"
    by (simp add: GetFileMetadata_result)
  have cl: "metadataOf ?hdr ''content-length'' = Some ''13''"
    by code_simp
  have pi: "ParseInt ''13'' = Inr 13"
    by code_simp
  have ne: "snd (snd (Size mockLib mockStore ''nonexistent.txt'')) \<noteq> None"
    by code_simp
  note t1 = Size_from_HEAD_metadata [of mockLib mockStore "''test.txt''"]
  note t2 = Size_from_HEAD_metadata [of mockLib mockStore "''nonexistent.txt''"]
  have m: "Method (requestFor mockStore ''HEAD'' ''test.txt'') = ''HEAD''"
    using t1 [THEN conjunct2, THEN conjunct1] s by (rule bspec)
  have r: "snd (Size mockLib mockStore ''test.txt'') = (13, None)"
    using t1 [THEN conjunct2, THEN conjunct2, THEN conjunct2, THEN conjunct1, rule_format,
        of "metadataOf ?hdr" "''13''" 13] md cl pi
    by simp
  have z: "fst (snd (Size mockLib mockStore ''nonexistent.txt'')) = 0"
    using t2 [THEN conjunct2, THEN conjunct2, THEN conjunct2, THEN conjunct2, THEN conjunct1] ne
    by (rule mp)
  show ?thesis
    using s m md cl pi r ne z by simp
qed

subsection \<open>The base address\<close>

text \<open>
  Claim C4, as the claim states it, fails: \<^verbatim>\<open>NewHTTPDataStore\<close> appends a separator when
  \<^verbatim>\<open>base_url\<close> does not end with one and otherwise keeps the value as it is, so a
  \<^verbatim>\<open>base_url\<close> that ends with two separators gives a base address that ends with two.
\<close>

theorem baseURL_keeps_supplied_separators:
  "NewHTTPDataStore mockLib \<lparr>Type = ''HTTP'', Params = [(''base_url'', ''https://example.com//'')]\<rparr> =
     Inr \<lparr>client = \<lparr>Timeout = 30000000000\<rparr>, baseURL = ''https://example.com//'', headers = []\<rparr> \<and>
   trailingSeparators ''https://example.com//'' = 2"
  by code_simp

text \<open>
  Claim C4, amended. The base address of a constructed store is \<^verbatim>\<open>base_url\<close> with one
  separator appended when it ends with none, and \<^verbatim>\<open>base_url\<close> unchanged otherwise. It ends
  with exactly one separator when \<^verbatim>\<open>base_url\<close> ends with none or one, and with as many
  as \<^verbatim>\<open>base_url\<close> when that ends with more.
\<close>

theorem baseURL_ends_with_separator:
  assumes "NewHTTPDataStore lib cfg = Inr h"
  shows "\<exists>b. map_of (Params cfg) ''base_url'' = Some b \<and>
             baseURL h = (if trailingSeparators b = 0 then b @ ''/'' else b) \<and>
             trailingSeparators (baseURL h) = max 1 (trailingSeparators b)"
proof -
  obtain b where b: "map_of (Params cfg) ''base_url'' = Some b"
      "baseURL h = (if HasSuffix b ''/'' then b else b @ ''/'')"
    using NewHTTPDataStore_baseURL [OF assms] by blast
  have "baseURL h = (if trailingSeparators b = 0 then b @ ''/'' else b)"
    using b(2) by (simp add: trailingSeparators_0)
  moreover have "trailingSeparators (baseURL h) = max 1 (trailingSeparators b)"
  proof (cases "trailingSeparators b = 0")
    case True
    then show ?thesis
      using b(2) trailingSeparators_append [of b] by (simp add: trailingSeparators_0)
  next
    case False
    then have "HasSuffix b ''/''"
      by (simp add: trailingSeparators_0)
    then have "baseURL h = b"
      using b(2) by simp
    then show ?thesis
      using False by simp
  qed
  ultimately show ?thesis
    using b(1) by blast
qed

theorem baseURL_ends_with_separator_witness:
  "NewHTTPDataStore mockLib mockConfig = Inr mockStore \<and>
   map_of (Params mockConfig) ''base_url'' = Some ''http://127.0.0.1:8080'' \<and>
   trailingSeparators ''http://127.0.0.1:8080'' = 0 \<and>
   baseURL mockStore = ''http://127.0.0.1:8080/'' \<and>
   trailingSeparators (baseURL mockStore) = 1"
proof -
  have n: "NewHTTPDataStore mockLib mockConfig = Inr mockStore"
    by code_simp
  have m: "map_of (Params mockConfig) ''base_url'' = Some ''http://127.0.0.1:8080''"
    by code_simp
  have t: "trailingSeparators ''http://127.0.0.1:8080'' = 0"
    by code_simp
  have u: "baseURL mockStore = ''http://127.0.0.1:8080/''"
    by code_simp
  obtain b where b: "map_of (Params mockConfig) ''base_url'' = Some b"
      "trailingSeparators (baseURL mockStore) = max 1 (trailingSeparators b)"
    using baseURL_ends_with_separator [OF n] by blast
  have "b = ''http://127.0.0.1:8080''"
    using b(1) by (simp only: m option.inject)
  then have r: "trailingSeparators (baseURL mockStore) = 1"
    using b(2) by (simp add: t)
  show ?thesis
    by (rule conjI [OF n conjI [OF m conjI [OF t conjI [OF u r]]]])
qed

end
